theory Spec2Isabelle
  imports Main "HOL-Library.Word"
begin

section \<open>SlewRateLimiter: the data model\<close>

text \<open>
  The library is one C++ class, \<^verbatim>\<open>SlewRateLimiter\<close> (SlewRateLimiter.h and
  SlewRateLimiter.cpp). Its fields become a record, its methods functions that take the
  object and return the updated object (and the returned value, for \<^verbatim>\<open>processValue\<close>).
  The model follows the complete implementation file; the repository also holds an
  earlier skeleton of it, with the same constructor and setters and with the bodies of
  \<^verbatim>\<open>updateEMA\<close>, \<^verbatim>\<open>processValue\<close> and most of \<^verbatim>\<open>reset\<close> left as comments.

  Every value of the class is a C++ \<^verbatim>\<open>int\<close>. Its width is the target's: 16 bits on the
  AVR boards, 32 bits on the ARM and ESP boards and on a desktop. An \<^verbatim>\<open>int\<close> is modelled
  as a machine word \<open>'a word\<close> whose width \<open>LENGTH('a)\<close> is a parameter of the model, read
  as a signed number by \<^const>\<open>sint\<close>. The code has no overflow check and no wider
  intermediate anywhere, and the compiled code computes in two's complement: a result
  outside the range of \<^verbatim>\<open>int\<close> wraps around. That is what \<open>+\<close>, \<open>-\<close> and \<open>*\<close> on
  words do, so the model follows the code outside the range too.
\<close>

text \<open>
  \<^verbatim>\<open>enum SRL_SmoothingExponent { SRL_SMOOTHING_1 = 0, ..., SRL_SMOOTHING_512 = 9 }\<close>.
  Where the enumeration is used as a shift count it is its integer value,
  \<open>exponent_value\<close>.
\<close>

datatype SRL_SmoothingExponent =
    SRL_SMOOTHING_1
  | SRL_SMOOTHING_2
  | SRL_SMOOTHING_4
  | SRL_SMOOTHING_8
  | SRL_SMOOTHING_16
  | SRL_SMOOTHING_32
  | SRL_SMOOTHING_64
  | SRL_SMOOTHING_128
  | SRL_SMOOTHING_256
  | SRL_SMOOTHING_512

fun exponent_value :: "SRL_SmoothingExponent \<Rightarrow> nat" where
  "exponent_value SRL_SMOOTHING_1 = 0"
| "exponent_value SRL_SMOOTHING_2 = 1"
| "exponent_value SRL_SMOOTHING_4 = 2"
| "exponent_value SRL_SMOOTHING_8 = 3"
| "exponent_value SRL_SMOOTHING_16 = 4"
| "exponent_value SRL_SMOOTHING_32 = 5"
| "exponent_value SRL_SMOOTHING_64 = 6"
| "exponent_value SRL_SMOOTHING_128 = 7"
| "exponent_value SRL_SMOOTHING_256 = 8"
| "exponent_value SRL_SMOOTHING_512 = 9"

text \<open>The private members of the class, in the order of the header.\<close>

record (overloaded) ('a::len) SlewRateLimiter =
  lastValue :: "'a word"
  emaValue :: "'a word"
  isFirstCall :: bool
  currentExponent :: SRL_SmoothingExponent
  rateLimit :: "'a word"
  hysteresisBand :: "'a word"
  adaptiveSlopeInternal :: "'a word"

section \<open>The operators of C++ on \<^verbatim>\<open>int\<close>\<close>

text \<open>
  The integers that an \<^verbatim>\<open>int\<close> of \<open>LENGTH('a)\<close> bits holds, from \<^verbatim>\<open>INT_MIN\<close> to
  \<^verbatim>\<open>INT_MAX\<close>. The theorems use it to say that a result of the arithmetic of the
  integers is also the result of the machine.
\<close>

definition in_range :: "'a::len itself \<Rightarrow> int \<Rightarrow> bool" where
  "in_range T k \<longleftrightarrow> - (2 ^ (LENGTH('a) - 1)) \<le> k \<and> k < 2 ^ (LENGTH('a) - 1)"

text \<open>
  \<^verbatim>\<open>a << n\<close> multiplies by \<open>2 ^ n\<close> and wraps; \<^verbatim>\<open>a >> n\<close> on a signed operand is the
  arithmetic shift, which rounds towards minus infinity (\<open>-1 >> 10 = -1\<close>): this is
  what C++20 defines and what GCC, the compiler of the Arduino toolchains, has always
  done on negative operands.
\<close>

definition shl :: "'a::len word \<Rightarrow> nat \<Rightarrow> 'a word" where
  "shl a n = push_bit n a"

definition shr :: "'a::len word \<Rightarrow> nat \<Rightarrow> 'a word" where
  "shr a n = signed_drop_bit n a"

text \<open>
  \<^verbatim>\<open>a / b\<close> on \<^verbatim>\<open>int\<close> is the quotient of the signed values truncated towards zero,
  where \<open>div\<close> of HOL rounds down.
\<close>

definition truncated_quotient :: "int \<Rightarrow> int \<Rightarrow> int" where
  "truncated_quotient a b = sgn a * sgn b * (\<bar>a\<bar> div \<bar>b\<bar>)"

definition c_div :: "'a::len word \<Rightarrow> 'a word \<Rightarrow> 'a word" where
  "c_div a b = word_of_int (truncated_quotient (sint a) (sint b))"

text \<open>
  \<^verbatim>\<open>abs(x)\<close> is the macro of Arduino.h, \<^verbatim>\<open>((x)>0?(x):-(x))\<close>; the comparison is the
  signed one, and \<^verbatim>\<open>-x\<close> wraps at \<^verbatim>\<open>INT_MIN\<close>.
\<close>

definition c_abs :: "'a::len word \<Rightarrow> 'a word" where
  "c_abs x = (if 0 <s x then x else - x)"

section \<open>The methods\<close>

text \<open>
  \<^verbatim>\<open>void setRateLimit(int limit) { rateLimit = limit; }\<close>
  \<^verbatim>\<open>void setHysteresisBand(int band) { hysteresisBand = band; }\<close>
  \<^verbatim>\<open>void setSmoothingExponent(SRL_SmoothingExponent exponent) { currentExponent = exponent; }\<close>
  \<^verbatim>\<open>void setAdaptiveSlope(int slope) { adaptiveSlopeInternal = (slope * 128 + 50) / 100; }\<close>
\<close>

definition setRateLimit :: "'a::len SlewRateLimiter \<Rightarrow> 'a word \<Rightarrow> 'a SlewRateLimiter" where
  "setRateLimit s limit = s\<lparr>rateLimit := limit\<rparr>"

definition setHysteresisBand :: "'a::len SlewRateLimiter \<Rightarrow> 'a word \<Rightarrow> 'a SlewRateLimiter" where
  "setHysteresisBand s band = s\<lparr>hysteresisBand := band\<rparr>"

definition setSmoothingExponent ::
  "'a::len SlewRateLimiter \<Rightarrow> SRL_SmoothingExponent \<Rightarrow> 'a SlewRateLimiter" where
  "setSmoothingExponent s exponent = s\<lparr>currentExponent := exponent\<rparr>"

definition setAdaptiveSlope :: "'a::len SlewRateLimiter \<Rightarrow> 'a word \<Rightarrow> 'a SlewRateLimiter" where
  "setAdaptiveSlope s slope = s\<lparr>adaptiveSlopeInternal := c_div (slope * 128 + 50) 100\<rparr>"

text \<open>
  The constructor initialises the members in its initialiser list and then calls
  \<^verbatim>\<open>setAdaptiveSlope(slope)\<close>.
\<close>

definition SlewRateLimiter ::
  "SRL_SmoothingExponent \<Rightarrow> 'a::len word \<Rightarrow> 'a word \<Rightarrow> 'a word \<Rightarrow> 'a SlewRateLimiter" where
  "SlewRateLimiter exponent rate hystBand slope =
     setAdaptiveSlope
       \<lparr>lastValue = 0, emaValue = 0, isFirstCall = True, currentExponent = exponent,
        rateLimit = rate, hysteresisBand = hystBand, adaptiveSlopeInternal = 0\<rparr>
       slope"

text \<open>\<^verbatim>\<open>void reset() { isFirstCall = true; lastValue = 0; emaValue = 0; }\<close>\<close>

definition reset :: "'a::len SlewRateLimiter \<Rightarrow> 'a SlewRateLimiter" where
  "reset s = s\<lparr>isFirstCall := True, lastValue := 0, emaValue := 0\<rparr>"

text \<open>
  \<^verbatim>\<open>return ((newValue << smoothingExponent) + (currentEMA << 10)
             - (currentEMA << smoothingExponent)) >> 10;\<close>
\<close>

definition updateEMA :: "'a::len word \<Rightarrow> 'a word \<Rightarrow> SRL_SmoothingExponent \<Rightarrow> 'a word" where
  "updateEMA newValue currentEMA smoothingExponent =
     shr (shl newValue (exponent_value smoothingExponent) + shl currentEMA 10
          - shl currentEMA (exponent_value smoothingExponent)) 10"

text \<open>
  The body of \<^verbatim>\<open>processValue\<close> after the first-call test is four blocks; each is a
  function here, named after the local variable or the comment of its block.

  \<^verbatim>\<open>int allowedChange = rateLimit;
  if (adaptiveSlopeInternal != 0)
    allowedChange += (abs(delta) * adaptiveSlopeInternal)>>7;\<close>
\<close>

definition allowedChange :: "'a::len SlewRateLimiter \<Rightarrow> 'a word \<Rightarrow> 'a word" where
  "allowedChange s delta =
     (if adaptiveSlopeInternal s \<noteq> 0
      then rateLimit s + shr (c_abs delta * adaptiveSlopeInternal s) 7
      else rateLimit s)"

text \<open>
  Rate limiting: the value of \<^verbatim>\<open>lastValue\<close> after
  \<^verbatim>\<open>if (delta > allowedChange) lastValue += allowedChange;
  else if (delta < -allowedChange) lastValue -= allowedChange;
  else lastValue = currentValue;\<close>
  with \<^verbatim>\<open>delta = currentValue - lastValue\<close>. The comparisons are the signed ones
  (\<open>a <s b\<close>; \<^verbatim>\<open>delta > allowedChange\<close> is \<open>allowed <s delta\<close>).
\<close>

definition rateLimiting :: "'a::len SlewRateLimiter \<Rightarrow> 'a word \<Rightarrow> 'a word" where
  "rateLimiting s currentValue =
     (let delta = currentValue - lastValue s;
          allowed = allowedChange s delta
      in if allowed <s delta then lastValue s + allowed
         else if delta <s - allowed then lastValue s - allowed
         else currentValue)"

text \<open>
  Hysteresis: the value of \<^verbatim>\<open>lastValue\<close> after
  \<^verbatim>\<open>if (abs(currentValue - lastValue) <= hysteresisBand) lastValue = currentValue;\<close>
  where \<open>stepped\<close> is \<^verbatim>\<open>lastValue\<close> before it.
\<close>

definition applyHysteresis :: "'a::len SlewRateLimiter \<Rightarrow> 'a word \<Rightarrow> 'a word \<Rightarrow> 'a word" where
  "applyHysteresis s currentValue stepped =
     (if c_abs (currentValue - stepped) \<le>s hysteresisBand s then currentValue else stepped)"

text \<open>
  \<^verbatim>\<open>int processValue(int currentValue)\<close>: the updated object and the returned value.
\<close>

definition processValue ::
  "'a::len SlewRateLimiter \<Rightarrow> 'a word \<Rightarrow> 'a SlewRateLimiter \<times> 'a word" where
  "processValue s currentValue =
     (if isFirstCall s
      then (s\<lparr>lastValue := currentValue, emaValue := currentValue, isFirstCall := False\<rparr>,
            currentValue)
      else
        let s1 = s\<lparr>emaValue := updateEMA currentValue (emaValue s) (currentExponent s)\<rparr>;
            s2 = s1\<lparr>lastValue := rateLimiting s1 currentValue\<rparr>;
            s3 = s2\<lparr>lastValue := applyHysteresis s2 currentValue (lastValue s2)\<rparr>
        in (s3, lastValue s3))"

text \<open>
  A caller's loop, as in the examples of the README: one call of \<^verbatim>\<open>processValue\<close>
  per input, the outputs collected in order.
\<close>

fun processValues :: "'a::len SlewRateLimiter \<Rightarrow> 'a word list \<Rightarrow> 'a word list" where
  "processValues s [] = []"
| "processValues s (x # xs) =
     (case processValue s x of (s', y) \<Rightarrow> y # processValues s' xs)"

text \<open>
  The computation of \<^verbatim>\<open>allowedChange\<close> stays in the range of \<^verbatim>\<open>int\<close>: \<^verbatim>\<open>abs(delta)\<close>, the
  product by the gain, and the sum with the rate limit are the results of the arithmetic
  of the integers.
\<close>

definition allowedChange_in_range :: "'a::len SlewRateLimiter \<Rightarrow> 'a word \<Rightarrow> bool" where
  "allowedChange_in_range s delta \<longleftrightarrow>
     in_range TYPE('a) (- sint delta) \<and>
     in_range TYPE('a) (\<bar>sint delta\<bar> * sint (adaptiveSlopeInternal s)) \<and>
     in_range TYPE('a) (sint (rateLimit s) + \<bar>sint delta\<bar> * sint (adaptiveSlopeInternal s) div 2 ^ 7)"

section \<open>Signed words and the integers\<close>

text \<open>
  Where the result of an operation on the integers is in the range of \<^verbatim>\<open>int\<close>, the machine
  operation returns it.
\<close>

lemma in_range_sint: "in_range TYPE('a) (sint (w :: 'a::len word))"
  by (simp add: in_range_def sint_greater_eq sint_less)

lemma sint_word_of_int_in_range:
  "in_range TYPE('a) k \<Longrightarrow> sint (word_of_int k :: 'a::len word) = k"
  by (simp add: in_range_def sint_sbintrunc' signed_take_bit_int_eq_self)

lemma sint_add_in_range:
  "in_range TYPE('a) (sint a + sint b) \<Longrightarrow> sint (a + b) = sint a + sint b" for a b :: "'a::len word"
  by (simp add: in_range_def sint_word_add signed_take_bit_int_eq_self)

lemma sint_diff_in_range:
  "in_range TYPE('a) (sint a - sint b) \<Longrightarrow> sint (a - b) = sint a - sint b" for a b :: "'a::len word"
  by (simp add: in_range_def sint_word_diff signed_take_bit_int_eq_self)

lemma sint_mult_in_range:
  "in_range TYPE('a) (sint a * sint b) \<Longrightarrow> sint (a * b) = sint a * sint b" for a b :: "'a::len word"
  by (simp add: in_range_def sint_word_mult signed_take_bit_int_eq_self)

lemma sint_minus_in_range:
  "in_range TYPE('a) (- sint a) \<Longrightarrow> sint (- a) = - sint a" for a :: "'a::len word"
  by (simp add: in_range_def sint_word_minus signed_take_bit_int_eq_self)

lemma sint_shr: "sint (shr a n) = sint a div 2 ^ n"
  by (simp add: shr_def sint_signed_drop_bit_eq drop_bit_eq_div)

lemma sint_c_abs:
  "in_range TYPE('a) (- sint a) \<Longrightarrow> sint (c_abs a) = \<bar>sint a\<bar>" for a :: "'a::len word"
  by (simp add: c_abs_def word_sless_alt sint_minus_in_range)

lemma truncated_quotient_nonneg:
  "0 \<le> a \<Longrightarrow> 0 < b \<Longrightarrow> truncated_quotient a b = a div b"
  by (cases "a = 0") (simp_all add: truncated_quotient_def)

lemma in_range_truncated_quotient:
  assumes a: "in_range T a" and b: "0 < b"
  shows "in_range T (truncated_quotient a b)"
proof -
  have "\<bar>a\<bar> div b \<le> \<bar>a\<bar> div 1"
    using b by (intro zdiv_mono2) simp_all
  then have le: "\<bar>a\<bar> div b \<le> \<bar>a\<bar>"
    by simp
  have ge: "0 \<le> \<bar>a\<bar> div b"
    using b by (simp add: pos_imp_zdiv_nonneg_iff)
  show ?thesis
  proof (cases "0 \<le> a")
    case True
    with a b le ge show ?thesis
      by (cases "a = 0") (auto simp add: in_range_def truncated_quotient_def)
  next
    case False
    with a b le ge show ?thesis
      by (auto simp add: in_range_def truncated_quotient_def)
  qed
qed

lemma in_range_100: "16 \<le> LENGTH('a::len) \<Longrightarrow> in_range TYPE('a) 100"
proof -
  assume "16 \<le> LENGTH('a)"
  then have "(2::int) ^ 15 \<le> 2 ^ (LENGTH('a) - 1)"
    by (intro power_increasing) simp_all
  then show ?thesis
    by (simp add: in_range_def)
qed

section \<open>Basic facts\<close>

lemmas processValue_blocks = rateLimiting_def allowedChange_def applyHysteresis_def

lemmas constructor_defs = SlewRateLimiter_def setAdaptiveSlope_def c_div_def truncated_quotient_def

lemmas c_operator_defs = c_abs_def shl_def shr_def

lemma isFirstCall_SlewRateLimiter: "isFirstCall (SlewRateLimiter exponent rate hystBand slope)"
  by (simp add: SlewRateLimiter_def setAdaptiveSlope_def)

lemma isFirstCall_reset: "isFirstCall (reset s)"
  by (simp add: reset_def)

lemma processValue_first:
  "isFirstCall s \<Longrightarrow>
   processValue s x = (s\<lparr>lastValue := x, emaValue := x, isFirstCall := False\<rparr>, x)"
  by (simp add: processValue_def)

text \<open>After the first call the returned value is the hysteresis block applied to the
  rate-limiting block; the update of the EMA does not enter.\<close>

lemma processValue_next:
  "\<not> isFirstCall s \<Longrightarrow>
   snd (processValue s x) = applyHysteresis s x (rateLimiting s x)"
  by (simp add: processValue_def Let_def processValue_blocks cong: if_cong)

lemma processValue_returns_lastValue:
  "snd (processValue s x) = lastValue (fst (processValue s x))"
  by (simp add: processValue_def Let_def)

lemma processValue_initialized: "\<not> isFirstCall (fst (processValue s x))"
  by (simp add: processValue_def Let_def)

text \<open>\<^verbatim>\<open>processValue\<close> writes no configuration field.\<close>

lemma processValue_config:
  "currentExponent (fst (processValue s x)) = currentExponent s"
  "rateLimit (fst (processValue s x)) = rateLimit s"
  "hysteresisBand (fst (processValue s x)) = hysteresisBand s"
  "adaptiveSlopeInternal (fst (processValue s x)) = adaptiveSlopeInternal s"
  by (simp_all add: processValue_def Let_def)

lemma processValue_ema:
  "\<not> isFirstCall s \<Longrightarrow>
   emaValue (fst (processValue s x)) = updateEMA x (emaValue s) (currentExponent s)"
  by (simp add: processValue_def Let_def)

lemma rateLimit_setAdaptiveSlope: "rateLimit (setAdaptiveSlope s p) = rateLimit s"
  by (simp add: setAdaptiveSlope_def)

section \<open>The blocks on the integers\<close>

text \<open>
  The new EMA, when the numerator is in range. The three shifted terms may wrap one by
  one: the wrap-arounds cancel in the sum.
\<close>

lemma sint_updateEMA:
  fixes x e :: "'a::len word"
  assumes "in_range TYPE('a) (sint x * 2 ^ exponent_value k + sint e * 1024
                          - sint e * 2 ^ exponent_value k)"
  shows "sint (updateEMA x e k) =
           (sint x * 2 ^ exponent_value k + sint e * 1024 - sint e * 2 ^ exponent_value k) div 1024"
proof -
  let ?n = "sint x * 2 ^ exponent_value k + sint e * 1024 - sint e * 2 ^ exponent_value k"
  have "sint (x * 2 ^ exponent_value k + e * 1024 - e * 2 ^ exponent_value k)
          = sint (word_of_int ?n :: 'a word)"
    by simp
  also have "\<dots> = ?n"
    using assms by (rule sint_word_of_int_in_range)
  finally show ?thesis
    by (simp add: updateEMA_def shl_def push_bit_eq_mult sint_shr)
qed

text \<open>
  The hysteresis test is the test on the integers when the gap and its negation are
  in range; the rate-limiting step in fixed mode is the step on the integers when
  \<open>currentValue - lastValue\<close> and its negation are.
\<close>

lemma applyHysteresis_sint:
  fixes x v :: "'a::len word"
  assumes "\<bar>sint x - sint v\<bar> < 2 ^ (LENGTH('a) - 1)"
  shows "applyHysteresis s x v = (if \<bar>sint x - sint v\<bar> \<le> sint (hysteresisBand s) then x else v)"
proof -
  from assms have gap: "in_range TYPE('a) (sint x - sint v)" and neg: "in_range TYPE('a) (- (sint x - sint v))"
    by (auto simp add: in_range_def)
  have d: "sint (x - v) = sint x - sint v"
    using gap by (rule sint_diff_in_range)
  have "sint (c_abs (x - v)) = \<bar>sint x - sint v\<bar>"
    using neg by (simp add: sint_c_abs d)
  then show ?thesis
    by (simp add: applyHysteresis_def word_sle_eq)
qed

lemma sint_rateLimiting_fixed:
  fixes x :: "'a::len word"
  assumes gain: "adaptiveSlopeInternal s = 0" and rate: "0 \<le> sint (rateLimit s)"
    and delta: "\<bar>sint x - sint (lastValue s)\<bar> < 2 ^ (LENGTH('a) - 1)"
  shows "sint (rateLimiting s x) =
    (if sint (rateLimit s) < sint x - sint (lastValue s) then sint (lastValue s) + sint (rateLimit s)
     else if sint x - sint (lastValue s) < - sint (rateLimit s) then sint (lastValue s) - sint (rateLimit s)
     else sint x)"
proof -
  let ?l = "sint (lastValue s)" and ?r = "sint (rateLimit s)" and ?x = "sint x"
  have bx: "in_range TYPE('a) ?x" and bl: "in_range TYPE('a) ?l" and br: "in_range TYPE('a) ?r"
    by (rule in_range_sint)+
  from delta have "in_range TYPE('a) (?x - ?l)"
    by (auto simp add: in_range_def)
  then have d: "sint (x - lastValue s) = ?x - ?l"
    by (rule sint_diff_in_range)
  from rate br have "in_range TYPE('a) (- ?r)"
    by (auto simp add: in_range_def)
  then have m: "sint (- rateLimit s) = - ?r"
    by (rule sint_minus_in_range)
  have up: "sint (lastValue s + rateLimit s) = ?l + ?r" if "?r < ?x - ?l"
  proof (rule sint_add_in_range)
    from that rate bx bl show "in_range TYPE('a) (?l + ?r)"
      by (auto simp add: in_range_def)
  qed
  have down: "sint (lastValue s - rateLimit s) = ?l - ?r" if "?x - ?l < - ?r"
  proof (rule sint_diff_in_range)
    from that rate bx bl show "in_range TYPE('a) (?l - ?r)"
      by (auto simp add: in_range_def)
  qed
  show ?thesis
    using up down
    by (simp add: rateLimiting_def allowedChange_def gain Let_def word_sless_alt d m)
qed

text \<open>
  The scaled gain, when \<open>slope * 128 + 50\<close> is in range; it is positive for a positive
  percentage and grows with the percentage.
\<close>

lemma sint_scaled_gain:
  fixes p :: "'a::len word"
  assumes n: "in_range TYPE('a) (sint p * 128 + 50)" and c: "in_range TYPE('a) 100"
  shows "sint (adaptiveSlopeInternal (setAdaptiveSlope s p)) =
           truncated_quotient (sint p * 128 + 50) 100"
proof -
  have "sint (p * 128 + 50) = sint (word_of_int (sint p * 128 + 50) :: 'a word)"
    by simp
  also have "\<dots> = sint p * 128 + 50"
    using n by (rule sint_word_of_int_in_range)
  finally have num: "sint (p * 128 + 50) = sint p * 128 + 50" .
  have den: "signed_take_bit (LENGTH('a) - Suc 0) (100 :: int) = 100"
    using c by (simp add: in_range_def signed_take_bit_int_eq_self)
  have "in_range TYPE('a) (truncated_quotient (sint p * 128 + 50) 100)"
    using n by (rule in_range_truncated_quotient) simp
  then show ?thesis
    by (simp add: setAdaptiveSlope_def c_div_def num den sint_word_of_int_in_range)
qed

lemma scaled_gain_0:
  fixes s :: "'a::len SlewRateLimiter"
  assumes "16 \<le> LENGTH('a)"
  shows "adaptiveSlopeInternal (setAdaptiveSlope s 0) = 0"
proof -
  from assms have c: "in_range TYPE('a) 100"
    by (rule in_range_100)
  then have "in_range TYPE('a) (sint (0 :: 'a word) * 128 + 50)"
    by (simp add: in_range_def)
  then have "sint (adaptiveSlopeInternal (setAdaptiveSlope s 0))
               = truncated_quotient (sint (0 :: 'a word) * 128 + 50) 100"
    using c by (rule sint_scaled_gain)
  then have "sint (adaptiveSlopeInternal (setAdaptiveSlope s 0)) = 0"
    by (simp add: truncated_quotient_def)
  then show ?thesis
    by (simp only: signed_eq_0_iff)
qed

lemma scaled_gain_pos: "0 < p \<Longrightarrow> 0 < truncated_quotient (p * 128 + 50) 100"
  by (simp add: truncated_quotient_def pos_imp_zdiv_pos_iff)

lemma scaled_gain_double:
  "0 < p \<Longrightarrow> truncated_quotient (p * 128 + 50) 100 \<le> truncated_quotient (2 * p * 128 + 50) 100"
  by (simp add: truncated_quotient_def zdiv_mono1)

text \<open>
  The allowed change, when its computation is in range; and if the computation for
  the larger product stays in range, so does the one for the smaller.
\<close>

lemma sint_allowedChange:
  fixes delta :: "'a::len word"
  assumes "allowedChange_in_range s delta"
  shows "sint (allowedChange s delta) =
           sint (rateLimit s) + \<bar>sint delta\<bar> * sint (adaptiveSlopeInternal s) div 2 ^ 7"
proof (cases "adaptiveSlopeInternal s = 0")
  case True
  then show ?thesis by (simp add: allowedChange_def)
next
  case False
  from assms have a: "sint (c_abs delta) = \<bar>sint delta\<bar>"
    by (simp add: allowedChange_in_range_def sint_c_abs)
  from assms have "sint (c_abs delta * adaptiveSlopeInternal s) = \<bar>sint delta\<bar> * sint (adaptiveSlopeInternal s)"
    by (simp add: allowedChange_in_range_def sint_mult_in_range a)
  then have q: "sint (shr (c_abs delta * adaptiveSlopeInternal s) 7)
                  = \<bar>sint delta\<bar> * sint (adaptiveSlopeInternal s) div 2 ^ 7"
    by (simp add: sint_shr)
  from assms have "sint (rateLimit s + shr (c_abs delta * adaptiveSlopeInternal s) 7)
                  = sint (rateLimit s) + \<bar>sint delta\<bar> * sint (adaptiveSlopeInternal s) div 2 ^ 7"
    by (simp add: allowedChange_in_range_def sint_add_in_range q)
  with False show ?thesis by (simp add: allowedChange_def)
qed

lemma allowedChange_in_range_smaller:
  fixes d1 d2 :: "'a::len word"
  assumes big: "allowedChange_in_range u d2"
    and le: "\<bar>sint d1\<bar> * sint (adaptiveSlopeInternal t) \<le> \<bar>sint d2\<bar> * sint (adaptiveSlopeInternal u)"
    and d1: "\<bar>sint d1\<bar> \<le> \<bar>sint d2\<bar>"
    and g: "0 \<le> sint (adaptiveSlopeInternal t)" and r: "rateLimit t = rateLimit u"
  shows "allowedChange_in_range t d1"
proof -
  let ?a = "\<bar>sint d1\<bar> * sint (adaptiveSlopeInternal t)" and ?b = "\<bar>sint d2\<bar> * sint (adaptiveSlopeInternal u)"
  have a0: "0 \<le> ?a" using g by simp
  have q: "?a div 2 ^ 7 \<le> ?b div 2 ^ 7"
    using le by (rule zdiv_mono1) simp
  have q0: "0 \<le> ?a div 2 ^ 7"
    using a0 by (simp add: pos_imp_zdiv_nonneg_iff)
  have rl: "in_range TYPE('a) (sint (rateLimit u))" by (rule in_range_sint)
  from big d1 in_range_sint [of d2] in_range_sint [of d1] have "in_range TYPE('a) (- sint d1)"
    unfolding allowedChange_in_range_def in_range_def by linarith
  moreover from big le a0 have "in_range TYPE('a) ?a"
    by (auto simp add: allowedChange_in_range_def in_range_def)
  moreover from big q q0 rl have "in_range TYPE('a) (sint (rateLimit u) + ?a div 2 ^ 7)"
    by (auto simp add: allowedChange_in_range_def in_range_def)
  ultimately show ?thesis
    by (simp add: allowedChange_in_range_def r)
qed

section \<open>The claims\<close>

subsection \<open>C1: the fixed-mode scenario\<close>

text \<open>
  Claim C1, as stated: with \<open>rateLimit = 5\<close>, \<open>hysteresisBand = 2\<close> and adaptive percentage
  0, a fresh instance fed \<open>[0, 20, 20, 20]\<close> returns \<open>[0, 5, 10, 20]\<close>. It does not: at the
  fourth call \<open>delta = 20 - 10 = 10 > 5\<close>, so the output steps to 15, and the remaining gap
  of 5 is outside the hysteresis band.
\<close>

theorem C1_scenario_counterexample:
  "processValues (SlewRateLimiter SRL_SMOOTHING_4 5 2 0 :: 32 SlewRateLimiter) [0, 20, 20, 20]
     \<noteq> [0, 5, 10, 20]"
  by code_simp

text \<open>
  Claim C1, amended: the outputs are \<open>[0, 5, 10, 15]\<close>, for every smoothing exponent, on
  an \<^verbatim>\<open>int\<close> of 32 bits and on one of 16 bits; a fifth input 20 is the one that returns
  20.
\<close>

theorem C1_scenario_outputs:
  "processValues (SlewRateLimiter e 5 2 0 :: 32 SlewRateLimiter) [0, 20, 20, 20]
     = [0, 5, 10, 15] \<and>
   processValues (SlewRateLimiter e 5 2 0 :: 32 SlewRateLimiter) [0, 20, 20, 20, 20]
     = [0, 5, 10, 15, 20] \<and>
   processValues (SlewRateLimiter e 5 2 0 :: 16 SlewRateLimiter) [0, 20, 20, 20]
     = [0, 5, 10, 15] \<and>
   processValues (SlewRateLimiter e 5 2 0 :: 16 SlewRateLimiter) [0, 20, 20, 20, 20]
     = [0, 5, 10, 15, 20]"
  by (simp add: constructor_defs processValue_def processValue_blocks c_operator_defs Let_def
      word_sless_alt word_sle_eq push_bit_eq_mult)

subsection \<open>C2: the EMA update\<close>

text \<open>
  Claim C2, as stated: after the first call the new EMA is
  \<open>(input * 2^shift + ema * 1024 - ema * 2^shift) / 1024\<close> with the division truncating
  towards zero, for every input and every prior EMA. It fails in two ways, shown on an
  \<^verbatim>\<open>int\<close> of 32 bits. The code shifts right by 10, which rounds down: from EMA 0 and
  input \<open>-1\<close> with shift 2 the numerator is \<open>-4\<close>, the code stores \<open>-1\<close>, and the
  truncating quotient is 0. And the numerator wraps around: from EMA 3000000 and input
  3000000 with shift 9 the code stores \<open>-1194304\<close>, where the formula gives 3000000.
\<close>

theorem C2_ema_truncation_counterexample:
  "sint (emaValue (fst (processValue (fst (processValue
      (SlewRateLimiter SRL_SMOOTHING_4 5 2 0 :: 32 SlewRateLimiter) 0)) (- 1)))) = - 1 \<and>
   truncated_quotient ((- 1) * 2 ^ exponent_value SRL_SMOOTHING_4 + 0 * 1024
      - 0 * 2 ^ exponent_value SRL_SMOOTHING_4) 1024 = 0 \<and>
   sint (emaValue (fst (processValue (fst (processValue
      (SlewRateLimiter SRL_SMOOTHING_4 5 2 0 :: 32 SlewRateLimiter) 0)) (- 1))))
     \<noteq> truncated_quotient ((- 1) * 2 ^ exponent_value SRL_SMOOTHING_4 + 0 * 1024
          - 0 * 2 ^ exponent_value SRL_SMOOTHING_4) 1024 \<and>
   sint (emaValue (fst (processValue (fst (processValue
      (SlewRateLimiter SRL_SMOOTHING_512 5 2 0 :: 32 SlewRateLimiter) 3000000)) 3000000)))
     = - 1194304 \<and>
   truncated_quotient (3000000 * 2 ^ exponent_value SRL_SMOOTHING_512 + 3000000 * 1024
      - 3000000 * 2 ^ exponent_value SRL_SMOOTHING_512) 1024 = 3000000 \<and>
   sint (emaValue (fst (processValue (fst (processValue
      (SlewRateLimiter SRL_SMOOTHING_512 5 2 0 :: 32 SlewRateLimiter) 3000000)) 3000000)))
     \<noteq> truncated_quotient (3000000 * 2 ^ exponent_value SRL_SMOOTHING_512 + 3000000 * 1024
          - 3000000 * 2 ^ exponent_value SRL_SMOOTHING_512) 1024"
  by code_simp

text \<open>
  Claim C2, amended: on every call after the first, for every input and every prior
  EMA for which the numerator \<open>input * 2^shift + ema * 1024 - ema * 2^shift\<close> is in the
  range of \<^verbatim>\<open>int\<close>, the new EMA is the numerator divided by 1024 and rounded towards
  minus infinity (\<open>div\<close>); it is the truncating quotient whenever, in addition, the
  numerator is not negative.
\<close>

theorem C2_ema_update:
  fixes x :: "'a::len word"
  assumes "\<not> isFirstCall s"
    and "in_range TYPE('a) (sint x * 2 ^ exponent_value (currentExponent s) + sint (emaValue s) * 1024
            - sint (emaValue s) * 2 ^ exponent_value (currentExponent s))"
  shows "sint (emaValue (fst (processValue s x))) =
           (sint x * 2 ^ exponent_value (currentExponent s) + sint (emaValue s) * 1024
            - sint (emaValue s) * 2 ^ exponent_value (currentExponent s)) div 1024 \<and>
         (0 \<le> sint x * 2 ^ exponent_value (currentExponent s) + sint (emaValue s) * 1024
               - sint (emaValue s) * 2 ^ exponent_value (currentExponent s) \<longrightarrow>
          sint (emaValue (fst (processValue s x))) =
            truncated_quotient (sint x * 2 ^ exponent_value (currentExponent s) + sint (emaValue s) * 1024
                   - sint (emaValue s) * 2 ^ exponent_value (currentExponent s)) 1024)"
  using assms by (simp add: processValue_ema sint_updateEMA truncated_quotient_nonneg)

text \<open>Claim C2 (amended) with shift 2. On 32 bits, from EMA 100 and input 1000, the
  numerator is 106000 and the new EMA is 103, under either rounding. On 16 bits, from
  EMA \<open>-10\<close> and input \<open>-20\<close>, the numerator is \<open>-10280\<close> and the new EMA is \<open>-11\<close>, the
  quotient rounded down.\<close>

theorem C2_ema_update_witness:
  "\<not> isFirstCall (fst (processValue
      (SlewRateLimiter SRL_SMOOTHING_4 5 2 0 :: 32 SlewRateLimiter) 100)) \<and>
   in_range TYPE(32) (1000 * 2 ^ 2 + 100 * 1024 - 100 * 2 ^ 2) \<and>
   sint (emaValue (fst (processValue (fst (processValue
      (SlewRateLimiter SRL_SMOOTHING_4 5 2 0 :: 32 SlewRateLimiter) 100)) 1000)))
     = (1000 * 2 ^ 2 + 100 * 1024 - 100 * 2 ^ 2) div 1024 \<and>
   (1000 * 2 ^ 2 + 100 * 1024 - 100 * 2 ^ 2) div 1024 = (103 :: int) \<and>
   (0 :: int) \<le> 1000 * 2 ^ 2 + 100 * 1024 - 100 * 2 ^ 2 \<and>
   sint (emaValue (fst (processValue (fst (processValue
      (SlewRateLimiter SRL_SMOOTHING_4 5 2 0 :: 32 SlewRateLimiter) 100)) 1000)))
     = truncated_quotient (1000 * 2 ^ 2 + 100 * 1024 - 100 * 2 ^ 2) 1024 \<and>
   \<not> isFirstCall (fst (processValue
      (SlewRateLimiter SRL_SMOOTHING_4 5 2 0 :: 16 SlewRateLimiter) (- 10))) \<and>
   in_range TYPE(16) ((- 20) * 2 ^ 2 + (- 10) * 1024 - (- 10) * 2 ^ 2) \<and>
   sint (emaValue (fst (processValue (fst (processValue
      (SlewRateLimiter SRL_SMOOTHING_4 5 2 0 :: 16 SlewRateLimiter) (- 10))) (- 20))))
     = ((- 20) * 2 ^ 2 + (- 10) * 1024 - (- 10) * 2 ^ 2) div 1024 \<and>
   ((- 20) * 2 ^ 2 + (- 10) * 1024 - (- 10) * 2 ^ 2) div 1024 = (- 11 :: int)"
proof -
  let ?s = "fst (processValue (SlewRateLimiter SRL_SMOOTHING_4 5 2 0 :: 32 SlewRateLimiter) 100)"
  let ?n = "sint (1000 :: 32 word) * 2 ^ exponent_value (currentExponent ?s)
            + sint (emaValue ?s) * 1024 - sint (emaValue ?s) * 2 ^ exponent_value (currentExponent ?s)"
  let ?t = "fst (processValue (SlewRateLimiter SRL_SMOOTHING_4 5 2 0 :: 16 SlewRateLimiter) (- 10))"
  let ?m = "sint (- 20 :: 16 word) * 2 ^ exponent_value (currentExponent ?t)
            + sint (emaValue ?t) * 1024 - sint (emaValue ?t) * 2 ^ exponent_value (currentExponent ?t)"
  have s: "\<not> isFirstCall ?s" and t: "\<not> isFirstCall ?t"
    by (rule processValue_initialized)+
  have n: "?n = 1000 * 2 ^ 2 + 100 * 1024 - 100 * 2 ^ 2"
    and m: "?m = (- 20) * 2 ^ 2 + (- 10) * 1024 - (- 10) * 2 ^ 2"
    by code_simp+
  have fn: "in_range TYPE(32) ?n" and fm: "in_range TYPE(16) ?m"
    by code_simp+
  have vn: "(1000 * 2 ^ 2 + 100 * 1024 - 100 * 2 ^ 2) div 1024 = (103 :: int)"
    and vm: "((- 20) * 2 ^ 2 + (- 10) * 1024 - (- 10) * 2 ^ 2) div 1024 = (- 11 :: int)"
    and pos: "(0 :: int) \<le> 1000 * 2 ^ 2 + 100 * 1024 - 100 * 2 ^ 2"
    by simp_all
  from pos have pos': "0 \<le> ?n"
    by (simp only: n)
  from C2_ema_update [OF s fn] have "sint (emaValue (fst (processValue ?s 1000))) = ?n div 1024"
    by (rule conjunct1)
  then have cn: "sint (emaValue (fst (processValue ?s 1000)))
                   = (1000 * 2 ^ 2 + 100 * 1024 - 100 * 2 ^ 2) div 1024"
    by (simp only: n)
  from C2_ema_update [OF s fn] pos'
  have "sint (emaValue (fst (processValue ?s 1000))) = truncated_quotient ?n 1024"
    by blast
  then have tn: "sint (emaValue (fst (processValue ?s 1000)))
                   = truncated_quotient (1000 * 2 ^ 2 + 100 * 1024 - 100 * 2 ^ 2) 1024"
    by (simp only: n)
  from C2_ema_update [OF t fm] have "sint (emaValue (fst (processValue ?t (- 20)))) = ?m div 1024"
    by (rule conjunct1)
  then have cm: "sint (emaValue (fst (processValue ?t (- 20))))
                   = ((- 20) * 2 ^ 2 + (- 10) * 1024 - (- 10) * 2 ^ 2) div 1024"
    by (simp only: m)
  from fn fm have fn': "in_range TYPE(32) (1000 * 2 ^ 2 + 100 * 1024 - 100 * 2 ^ 2)"
    and fm': "in_range TYPE(16) ((- 20) * 2 ^ 2 + (- 10) * 1024 - (- 10) * 2 ^ 2)"
    by (simp_all only: n m)
  from s t fn' fm' cn tn cm vn vm pos show ?thesis
    by blast
qed

subsection \<open>C3: the first call passes the input through\<close>

text \<open>
  Claim C3: the first \<^verbatim>\<open>processValue(x)\<close> on a fresh or just-reset instance (the flag
  \<open>isFirstCall\<close> is set, as the constructor and \<open>reset\<close> leave it) returns \<open>x\<close> and
  leaves \<open>lastValue = x\<close>, \<open>emaValue = x\<close> and the instance initialised.
\<close>

theorem C3_first_call_passthrough:
  assumes "isFirstCall s"
  shows "snd (processValue s x) = x \<and>
         lastValue (fst (processValue s x)) = x \<and>
         emaValue (fst (processValue s x)) = x \<and>
         \<not> isFirstCall (fst (processValue s x))"
  using assms by (simp add: processValue_first)

text \<open>Claim C3 at a fresh instance and at an instance reset after two calls.\<close>

theorem C3_first_call_passthrough_witness:
  "isFirstCall (SlewRateLimiter SRL_SMOOTHING_4 5 2 0 :: 32 SlewRateLimiter) \<and>
   processValue (SlewRateLimiter SRL_SMOOTHING_4 5 2 0 :: 32 SlewRateLimiter) 37 =
     (\<lparr>lastValue = 37, emaValue = 37, isFirstCall = False,
       currentExponent = SRL_SMOOTHING_4, rateLimit = 5, hysteresisBand = 2,
       adaptiveSlopeInternal = 0\<rparr>, 37) \<and>
   isFirstCall (reset (fst (processValue (fst (processValue
       (SlewRateLimiter SRL_SMOOTHING_16 10 3 50 :: 16 SlewRateLimiter) 0)) 400))) \<and>
   snd (processValue (reset (fst (processValue (fst (processValue
       (SlewRateLimiter SRL_SMOOTHING_16 10 3 50 :: 16 SlewRateLimiter) 0)) 400))) (- 8)) = - 8"
proof -
  let ?s = "SlewRateLimiter SRL_SMOOTHING_4 5 2 0 :: 32 SlewRateLimiter"
  let ?t = "reset (fst (processValue (fst (processValue
       (SlewRateLimiter SRL_SMOOTHING_16 10 3 50 :: 16 SlewRateLimiter) 0)) 400))"
  have s: "isFirstCall ?s" and t: "isFirstCall ?t"
    by (rule isFirstCall_SlewRateLimiter, rule isFirstCall_reset)
  have "processValue ?s 37 =
     (\<lparr>lastValue = 37, emaValue = 37, isFirstCall = False,
       currentExponent = SRL_SMOOTHING_4, rateLimit = 5, hysteresisBand = 2,
       adaptiveSlopeInternal = 0\<rparr>, 37)"
    using C3_first_call_passthrough [OF s, of 37] by code_simp
  with s t C3_first_call_passthrough [OF t, of "- 8"] show ?thesis
    by blast
qed

subsection \<open>C4: the fixed-mode bound\<close>

text \<open>
  Claim C4, as stated: with adaptive percentage 0 and \<open>hysteresisBand = 0\<close>, two
  consecutive calls give \<open>\<bar>output1 - output0\<bar> \<le> rateLimit\<close>. It fails in two ways, shown
  on an \<^verbatim>\<open>int\<close> of 32 bits. The constructor takes any \<^verbatim>\<open>int\<close> as rate limit and nothing
  checks its sign: with \<open>rateLimit = -3\<close> and inputs 0 then 0, \<open>delta = 0 > -3\<close>, so the
  output moves from 0 to \<open>-3\<close>. And \<^verbatim>\<open>delta = currentValue - lastValue\<close> wraps around:
  with \<open>rateLimit = 5\<close> and inputs \<^verbatim>\<open>INT_MIN\<close> then \<^verbatim>\<open>INT_MAX\<close> the code computes
  \<open>delta = -1\<close> and assigns the input, a step of \<open>2^32 - 1\<close>.
\<close>

theorem C4_fixed_mode_bound_counterexample:
  "adaptiveSlopeInternal (SlewRateLimiter SRL_SMOOTHING_4 (- 3) 0 0 :: 32 SlewRateLimiter) = 0 \<and>
   hysteresisBand (SlewRateLimiter SRL_SMOOTHING_4 (- 3) 0 0 :: 32 SlewRateLimiter) = 0 \<and>
   map sint (processValues (SlewRateLimiter SRL_SMOOTHING_4 (- 3) 0 0 :: 32 SlewRateLimiter)
      [0, 0]) = [0, - 3] \<and>
   \<not> \<bar>sint (snd (processValue (fst (processValue
          (SlewRateLimiter SRL_SMOOTHING_4 (- 3) 0 0 :: 32 SlewRateLimiter) 0)) 0))
        - sint (snd (processValue
          (SlewRateLimiter SRL_SMOOTHING_4 (- 3) 0 0 :: 32 SlewRateLimiter) 0))\<bar>
      \<le> sint (rateLimit (SlewRateLimiter SRL_SMOOTHING_4 (- 3) 0 0 :: 32 SlewRateLimiter)) \<and>
   adaptiveSlopeInternal (SlewRateLimiter SRL_SMOOTHING_4 5 0 0 :: 32 SlewRateLimiter) = 0 \<and>
   hysteresisBand (SlewRateLimiter SRL_SMOOTHING_4 5 0 0 :: 32 SlewRateLimiter) = 0 \<and>
   map sint (processValues (SlewRateLimiter SRL_SMOOTHING_4 5 0 0 :: 32 SlewRateLimiter)
      [- 2147483648, 2147483647]) = [- 2147483648, 2147483647] \<and>
   \<not> \<bar>sint (snd (processValue (fst (processValue
          (SlewRateLimiter SRL_SMOOTHING_4 5 0 0 :: 32 SlewRateLimiter) (- 2147483648)))
          2147483647))
        - sint (snd (processValue
          (SlewRateLimiter SRL_SMOOTHING_4 5 0 0 :: 32 SlewRateLimiter) (- 2147483648)))\<bar>
      \<le> sint (rateLimit (SlewRateLimiter SRL_SMOOTHING_4 5 0 0 :: 32 SlewRateLimiter))"
  by code_simp

text \<open>
  Claim C4, amended: with scaled gain 0, \<open>hysteresisBand = 0\<close> and \<open>rateLimit \<ge> 0\<close>, for
  any two consecutive calls with inputs \<open>x0\<close> then \<open>x1\<close> and outputs \<open>output0\<close> then
  \<open>output1\<close> such that \<open>\<bar>x1 - output0\<bar>\<close> is at most \<^verbatim>\<open>INT_MAX\<close>,
  \<open>\<bar>output1 - output0\<bar> \<le> rateLimit\<close>, with equality whenever
  \<open>\<bar>x1 - output0\<bar> \<ge> rateLimit\<close>. The differences are those of the integers.
\<close>

theorem C4_fixed_mode_bound:
  fixes x1 :: "'a::len word"
  assumes "adaptiveSlopeInternal s = 0" and "hysteresisBand s = 0" and "0 \<le> sint (rateLimit s)"
    and "processValue s x0 = (s1, output0)" and "processValue s1 x1 = (s2, output1)"
    and "\<bar>sint x1 - sint output0\<bar> < 2 ^ (LENGTH('a) - 1)"
  shows "\<bar>sint output1 - sint output0\<bar> \<le> sint (rateLimit s) \<and>
         (sint (rateLimit s) \<le> \<bar>sint x1 - sint output0\<bar> \<longrightarrow>
            \<bar>sint output1 - sint output0\<bar> = sint (rateLimit s))"
proof -
  have s1: "s1 = fst (processValue s x0)" and o0: "output0 = snd (processValue s x0)"
    using assms(4) by simp_all
  have init: "\<not> isFirstCall s1"
    unfolding s1 by (rule processValue_initialized)
  have gain: "adaptiveSlopeInternal s1 = 0" and band: "hysteresisBand s1 = 0"
    and rate: "rateLimit s1 = rateLimit s"
    unfolding s1 using assms(1,2) by (simp_all add: processValue_config)
  have last: "lastValue s1 = output0"
    unfolding s1 o0 by (simp add: processValue_returns_lastValue)
  let ?v = "rateLimiting s1 x1"
  have v: "sint ?v =
    (if sint (rateLimit s) < sint x1 - sint output0 then sint output0 + sint (rateLimit s)
     else if sint x1 - sint output0 < - sint (rateLimit s) then sint output0 - sint (rateLimit s)
     else sint x1)"
    using sint_rateLimiting_fixed [of s1 x1] gain assms(3,6) by (simp add: rate last)
  with assms(3,6) have "\<bar>sint x1 - sint ?v\<bar> < 2 ^ (LENGTH('a) - 1)"
    by (simp split: if_splits)
  then have "applyHysteresis s1 x1 ?v = (if \<bar>sint x1 - sint ?v\<bar> \<le> sint (hysteresisBand s1) then x1 else ?v)"
    by (rule applyHysteresis_sint)
  moreover have "output1 = applyHysteresis s1 x1 ?v"
    using processValue_next [OF init, of x1] assms(5) by simp
  ultimately show ?thesis
    using v assms(3) by (auto simp add: band split: if_splits)
qed

text \<open>Claim C4 (amended) on 32 bits at \<open>rateLimit = 5\<close>, inputs 0 then 20: the step is
  exactly 5.\<close>

theorem C4_fixed_mode_bound_witness:
  "adaptiveSlopeInternal (SlewRateLimiter SRL_SMOOTHING_4 5 0 0 :: 32 SlewRateLimiter) = 0 \<and>
   hysteresisBand (SlewRateLimiter SRL_SMOOTHING_4 5 0 0 :: 32 SlewRateLimiter) = 0 \<and>
   0 \<le> sint (rateLimit (SlewRateLimiter SRL_SMOOTHING_4 5 0 0 :: 32 SlewRateLimiter)) \<and>
   \<bar>sint (20 :: 32 word)
      - sint (snd (processValue (SlewRateLimiter SRL_SMOOTHING_4 5 0 0 :: 32 SlewRateLimiter) 0))\<bar>
     < 2 ^ (LENGTH(32) - 1) \<and>
   sint (rateLimit (SlewRateLimiter SRL_SMOOTHING_4 5 0 0 :: 32 SlewRateLimiter))
     \<le> \<bar>sint (20 :: 32 word)
        - sint (snd (processValue (SlewRateLimiter SRL_SMOOTHING_4 5 0 0 :: 32 SlewRateLimiter) 0))\<bar> \<and>
   \<bar>sint (snd (processValue (fst (processValue
        (SlewRateLimiter SRL_SMOOTHING_4 5 0 0 :: 32 SlewRateLimiter) 0)) 20))
      - sint (snd (processValue (SlewRateLimiter SRL_SMOOTHING_4 5 0 0 :: 32 SlewRateLimiter) 0))\<bar>
     = sint (rateLimit (SlewRateLimiter SRL_SMOOTHING_4 5 0 0 :: 32 SlewRateLimiter)) \<and>
   map sint (processValues (SlewRateLimiter SRL_SMOOTHING_4 5 0 0 :: 32 SlewRateLimiter) [0, 20])
     = [0, 5]"
proof -
  let ?s = "SlewRateLimiter SRL_SMOOTHING_4 5 0 0 :: 32 SlewRateLimiter"
  let ?s1 = "fst (processValue ?s 0)" and ?o0 = "snd (processValue ?s 0)"
  let ?s2 = "fst (processValue ?s1 20)" and ?o1 = "snd (processValue ?s1 20)"
  have g: "adaptiveSlopeInternal ?s = 0" and h: "hysteresisBand ?s = 0"
    and r: "0 \<le> sint (rateLimit ?s)"
    and d: "\<bar>sint (20 :: 32 word) - sint ?o0\<bar> < 2 ^ (LENGTH(32) - 1)"
    and far: "sint (rateLimit ?s) \<le> \<bar>sint (20 :: 32 word) - sint ?o0\<bar>"
    and run: "map sint (processValues ?s [0, 20]) = [0, 5]"
    by code_simp+
  have c0: "processValue ?s 0 = (?s1, ?o0)" and c1: "processValue ?s1 20 = (?s2, ?o1)"
    by simp_all
  from C4_fixed_mode_bound [OF g h r c0 c1 d] far
  have "\<bar>sint ?o1 - sint ?o0\<bar> = sint (rateLimit ?s)"
    by blast
  with g h r d far run show ?thesis
    by blast
qed

subsection \<open>C5: the hysteresis snap\<close>

text \<open>
  Claim C5: on a call after the first, if the value left by the rate-limiting step is
  within \<open>hysteresisBand\<close> of the input (a distance of the integers), the call returns
  the input itself and \<open>lastValue\<close> is the input afterwards.
\<close>

theorem C5_hysteresis_snap:
  assumes "\<not> isFirstCall s"
    and "\<bar>sint x - sint (rateLimiting s x)\<bar> \<le> sint (hysteresisBand s)"
  shows "snd (processValue s x) = x \<and> lastValue (fst (processValue s x)) = x"
proof -
  have "sint (hysteresisBand s) < 2 ^ (LENGTH('a) - 1)"
    by (rule sint_lt)
  with assms(2) have "\<bar>sint x - sint (rateLimiting s x)\<bar> < 2 ^ (LENGTH('a) - 1)"
    by simp
  then have "applyHysteresis s x (rateLimiting s x) = x"
    using assms(2) by (simp add: applyHysteresis_sint)
  then show ?thesis
    using assms(1) by (simp add: processValue_next processValue_returns_lastValue [symmetric])
qed

text \<open>Claim C5 at \<open>rateLimit = 5\<close>, \<open>hysteresisBand = 2\<close>, last output 0 and input 7: the
  step reaches 5, the gap is 2, and the call returns 7.\<close>

theorem C5_hysteresis_snap_witness:
  "\<not> isFirstCall (fst (processValue (SlewRateLimiter SRL_SMOOTHING_4 5 2 0 :: 32 SlewRateLimiter) 0)) \<and>
   sint (rateLimiting (fst (processValue
      (SlewRateLimiter SRL_SMOOTHING_4 5 2 0 :: 32 SlewRateLimiter) 0)) 7) = 5 \<and>
   \<bar>sint (7 :: 32 word) - sint (rateLimiting (fst (processValue
      (SlewRateLimiter SRL_SMOOTHING_4 5 2 0 :: 32 SlewRateLimiter) 0)) 7)\<bar>
     \<le> sint (hysteresisBand (fst (processValue
      (SlewRateLimiter SRL_SMOOTHING_4 5 2 0 :: 32 SlewRateLimiter) 0))) \<and>
   snd (processValue (fst (processValue
      (SlewRateLimiter SRL_SMOOTHING_4 5 2 0 :: 32 SlewRateLimiter) 0)) 7) = 7 \<and>
   lastValue (fst (processValue (fst (processValue
      (SlewRateLimiter SRL_SMOOTHING_4 5 2 0 :: 32 SlewRateLimiter) 0)) 7)) = 7"
proof -
  let ?s = "fst (processValue (SlewRateLimiter SRL_SMOOTHING_4 5 2 0 :: 32 SlewRateLimiter) 0)"
  have i: "\<not> isFirstCall ?s"
    by (rule processValue_initialized)
  have v: "sint (rateLimiting ?s 7) = 5"
    and b: "\<bar>sint (7 :: 32 word) - sint (rateLimiting ?s 7)\<bar> \<le> sint (hysteresisBand ?s)"
    by code_simp+
  from i v b C5_hysteresis_snap [OF i b] show ?thesis
    by blast
qed

subsection \<open>C6: the adaptive step is monotone\<close>

text \<open>
  Claim C6, as stated: for a fixed \<open>rateLimit\<close> and an adaptive percentage \<open>p > 0\<close>, the
  allowed step \<open>rateLimit + ((\<bar>delta\<bar> * scaled gain) >> 7)\<close> does not decrease when
  \<open>\<bar>delta\<bar>\<close> grows, and does not decrease when the percentage is doubled. On an \<^verbatim>\<open>int\<close>
  of 32 bits both fail, because \<^verbatim>\<open>abs(delta) * adaptiveSlopeInternal\<close> and
  \<^verbatim>\<open>slope * 128 + 50\<close> wrap around. With \<open>rateLimit = 5\<close> and the percentage 100 (scaled
  gain 128) the allowed step is 16000005 at \<open>delta = 16000000\<close> and \<open>-16554427\<close> at
  \<open>delta = 17000000\<close>. The percentage 10000000 has the scaled gain 12800000 and its
  double has \<open>-17349672\<close>: at \<open>delta = 1\<close> the allowed step falls from 100005 to
  \<open>-135540\<close>.
\<close>

theorem C6_adaptive_monotone_counterexample:
  "0 < sint (100 :: 32 word) \<and>
   \<bar>sint (16000000 :: 32 word)\<bar> \<le> \<bar>sint (17000000 :: 32 word)\<bar> \<and>
   sint (allowedChange (setAdaptiveSlope
      (SlewRateLimiter SRL_SMOOTHING_4 5 0 0 :: 32 SlewRateLimiter) 100) 16000000) = 16000005 \<and>
   sint (allowedChange (setAdaptiveSlope
      (SlewRateLimiter SRL_SMOOTHING_4 5 0 0 :: 32 SlewRateLimiter) 100) 17000000) = - 16554427 \<and>
   \<not> sint (allowedChange (setAdaptiveSlope
      (SlewRateLimiter SRL_SMOOTHING_4 5 0 0 :: 32 SlewRateLimiter) 100) 16000000)
     \<le> sint (allowedChange (setAdaptiveSlope
      (SlewRateLimiter SRL_SMOOTHING_4 5 0 0 :: 32 SlewRateLimiter) 100) 17000000) \<and>
   0 < sint (10000000 :: 32 word) \<and>
   sint (adaptiveSlopeInternal (setAdaptiveSlope
      (SlewRateLimiter SRL_SMOOTHING_4 5 0 0 :: 32 SlewRateLimiter) 10000000)) = 12800000 \<and>
   sint (adaptiveSlopeInternal (setAdaptiveSlope
      (SlewRateLimiter SRL_SMOOTHING_4 5 0 0 :: 32 SlewRateLimiter) (2 * 10000000))) = - 17349672 \<and>
   sint (allowedChange (setAdaptiveSlope
      (SlewRateLimiter SRL_SMOOTHING_4 5 0 0 :: 32 SlewRateLimiter) 10000000) 1) = 100005 \<and>
   sint (allowedChange (setAdaptiveSlope
      (SlewRateLimiter SRL_SMOOTHING_4 5 0 0 :: 32 SlewRateLimiter) (2 * 10000000)) 1) = - 135540 \<and>
   \<not> sint (allowedChange (setAdaptiveSlope
      (SlewRateLimiter SRL_SMOOTHING_4 5 0 0 :: 32 SlewRateLimiter) 10000000) 1)
     \<le> sint (allowedChange (setAdaptiveSlope
      (SlewRateLimiter SRL_SMOOTHING_4 5 0 0 :: 32 SlewRateLimiter) (2 * 10000000)) 1)"
  by code_simp

text \<open>
  Claim C6, amended: for a fixed \<open>rateLimit\<close> and an adaptive percentage \<open>p > 0\<close>, as long
  as nothing overflows the allowed step does not decrease when \<open>\<bar>delta\<bar>\<close> grows, and
  does not decrease when the percentage is doubled. Precisely: if \<open>p * 128 + 50\<close> is in
  the range of \<^verbatim>\<open>int\<close> and the computation of the allowed step for \<open>d2\<close> stays in range
  (\<open>allowedChange_in_range\<close>), then the step for any \<open>d1\<close> with \<open>\<bar>d1\<bar> \<le> \<bar>d2\<bar>\<close> is not
  larger than the step for \<open>d2\<close>; and if \<open>2 * p * 128 + 50\<close> is in range and the
  computation of the allowed step under the percentage \<open>2 * p\<close> stays in range, then the
  step under \<open>p\<close> is not larger than the step under \<open>2 * p\<close>.
\<close>

theorem C6_adaptive_monotone:
  fixes s :: "'a::len SlewRateLimiter"
  assumes "0 < sint p"
  shows "(in_range TYPE('a) (sint p * 128 + 50) \<and>
          allowedChange_in_range (setAdaptiveSlope s p) d2 \<and> \<bar>sint d1\<bar> \<le> \<bar>sint d2\<bar> \<longrightarrow>
            sint (allowedChange (setAdaptiveSlope s p) d1)
              \<le> sint (allowedChange (setAdaptiveSlope s p) d2)) \<and>
         (in_range TYPE('a) (2 * sint p * 128 + 50) \<and>
          allowedChange_in_range (setAdaptiveSlope s (2 * p)) d \<longrightarrow>
            sint (allowedChange (setAdaptiveSlope s p) d)
              \<le> sint (allowedChange (setAdaptiveSlope s (2 * p)) d))"
proof (intro conjI impI)
  let ?t = "setAdaptiveSlope s p"
  assume h: "in_range TYPE('a) (sint p * 128 + 50) \<and> allowedChange_in_range ?t d2 \<and> \<bar>sint d1\<bar> \<le> \<bar>sint d2\<bar>"
  then have n: "in_range TYPE('a) (sint p * 128 + 50)" and big: "allowedChange_in_range ?t d2"
    and le: "\<bar>sint d1\<bar> \<le> \<bar>sint d2\<bar>"
    by simp_all
  from n assms have c: "in_range TYPE('a) 100"
    by (auto simp add: in_range_def)
  have g: "sint (adaptiveSlopeInternal ?t) = truncated_quotient (sint p * 128 + 50) 100"
    using n c by (rule sint_scaled_gain)
  have g0: "0 < sint (adaptiveSlopeInternal ?t)"
    unfolding g using assms by (rule scaled_gain_pos)
  have prod: "\<bar>sint d1\<bar> * sint (adaptiveSlopeInternal ?t) \<le> \<bar>sint d2\<bar> * sint (adaptiveSlopeInternal ?t)"
    using le g0 by (simp add: mult_right_mono)
  have small: "allowedChange_in_range ?t d1"
    using big prod le by (rule allowedChange_in_range_smaller) (use g0 in simp_all)
  have "\<bar>sint d1\<bar> * sint (adaptiveSlopeInternal ?t) div 2 ^ 7
          \<le> \<bar>sint d2\<bar> * sint (adaptiveSlopeInternal ?t) div 2 ^ 7"
    using prod by (rule zdiv_mono1) simp
  then show "sint (allowedChange ?t d1) \<le> sint (allowedChange ?t d2)"
    by (simp add: sint_allowedChange [OF small] sint_allowedChange [OF big]
        rateLimit_setAdaptiveSlope)
next
  let ?t = "setAdaptiveSlope s p" and ?u = "setAdaptiveSlope s (2 * p)"
  assume h: "in_range TYPE('a) (2 * sint p * 128 + 50) \<and> allowedChange_in_range ?u d"
  then have n2: "in_range TYPE('a) (2 * sint p * 128 + 50)" and big: "allowedChange_in_range ?u d"
    by simp_all
  from n2 assms have n: "in_range TYPE('a) (sint p * 128 + 50)" and c: "in_range TYPE('a) 100"
    and p2: "in_range TYPE('a) (2 * sint p)"
    by (auto simp add: in_range_def)
  have "sint (2 * p) = sint (word_of_int (2 * sint p) :: 'a word)"
    by simp
  also have "\<dots> = 2 * sint p"
    using p2 by (rule sint_word_of_int_in_range)
  finally have dbl: "sint (2 * p) = 2 * sint p" .
  have g: "sint (adaptiveSlopeInternal ?t) = truncated_quotient (sint p * 128 + 50) 100"
    using n c by (rule sint_scaled_gain)
  have g2: "sint (adaptiveSlopeInternal ?u) = truncated_quotient (2 * sint p * 128 + 50) 100"
    using sint_scaled_gain [of "2 * p" s] n2 c by (simp add: dbl)
  have g0: "0 < sint (adaptiveSlopeInternal ?t)"
    unfolding g using assms by (rule scaled_gain_pos)
  have gle: "sint (adaptiveSlopeInternal ?t) \<le> sint (adaptiveSlopeInternal ?u)"
    unfolding g g2 using assms by (rule scaled_gain_double)
  have prod: "\<bar>sint d\<bar> * sint (adaptiveSlopeInternal ?t) \<le> \<bar>sint d\<bar> * sint (adaptiveSlopeInternal ?u)"
    using gle by (simp add: mult_left_mono)
  have small: "allowedChange_in_range ?t d"
    using big prod by (rule allowedChange_in_range_smaller) (use g0 in \<open>simp_all add: setAdaptiveSlope_def\<close>)
  have "\<bar>sint d\<bar> * sint (adaptiveSlopeInternal ?t) div 2 ^ 7
          \<le> \<bar>sint d\<bar> * sint (adaptiveSlopeInternal ?u) div 2 ^ 7"
    using prod by (rule zdiv_mono1) simp
  then show "sint (allowedChange ?t d) \<le> sint (allowedChange ?u d)"
    by (simp add: sint_allowedChange [OF small] sint_allowedChange [OF big]
        rateLimit_setAdaptiveSlope)
qed

text \<open>Claim C6 (amended) on 32 bits at \<open>rateLimit = 5\<close> and the percentage 50 (scaled gain
  64): the allowed step is 10 at \<open>delta = -10\<close> and 55 at \<open>delta = 100\<close>; the percentage
  100 allows 15 at \<open>delta = -10\<close>.\<close>

theorem C6_adaptive_monotone_witness:
  "0 < sint (50 :: 32 word) \<and>
   in_range TYPE(32) (sint (50 :: 32 word) * 128 + 50) \<and>
   in_range TYPE(32) (2 * sint (50 :: 32 word) * 128 + 50) \<and>
   allowedChange_in_range
     (setAdaptiveSlope (SlewRateLimiter SRL_SMOOTHING_4 5 2 0 :: 32 SlewRateLimiter) 50) 100 \<and>
   allowedChange_in_range
     (setAdaptiveSlope (SlewRateLimiter SRL_SMOOTHING_4 5 2 0 :: 32 SlewRateLimiter) (2 * 50))
     (- 10) \<and>
   \<bar>sint (- 10 :: 32 word)\<bar> \<le> \<bar>sint (100 :: 32 word)\<bar> \<and>
   sint (allowedChange
     (setAdaptiveSlope (SlewRateLimiter SRL_SMOOTHING_4 5 2 0 :: 32 SlewRateLimiter) 50) (- 10))
     \<le> sint (allowedChange
     (setAdaptiveSlope (SlewRateLimiter SRL_SMOOTHING_4 5 2 0 :: 32 SlewRateLimiter) 50) 100) \<and>
   sint (allowedChange
     (setAdaptiveSlope (SlewRateLimiter SRL_SMOOTHING_4 5 2 0 :: 32 SlewRateLimiter) 50) (- 10))
     \<le> sint (allowedChange
     (setAdaptiveSlope (SlewRateLimiter SRL_SMOOTHING_4 5 2 0 :: 32 SlewRateLimiter) (2 * 50))
     (- 10)) \<and>
   sint (allowedChange
     (setAdaptiveSlope (SlewRateLimiter SRL_SMOOTHING_4 5 2 0 :: 32 SlewRateLimiter) 50) (- 10))
     = 10 \<and>
   sint (allowedChange
     (setAdaptiveSlope (SlewRateLimiter SRL_SMOOTHING_4 5 2 0 :: 32 SlewRateLimiter) 50) 100)
     = 55 \<and>
   sint (allowedChange
     (setAdaptiveSlope (SlewRateLimiter SRL_SMOOTHING_4 5 2 0 :: 32 SlewRateLimiter) (2 * 50))
     (- 10)) = 15"
proof -
  let ?s = "SlewRateLimiter SRL_SMOOTHING_4 5 2 0 :: 32 SlewRateLimiter"
  have p: "0 < sint (50 :: 32 word)"
    and n: "in_range TYPE(32) (sint (50 :: 32 word) * 128 + 50)"
    and n2: "in_range TYPE(32) (2 * sint (50 :: 32 word) * 128 + 50)"
    and a: "allowedChange_in_range (setAdaptiveSlope ?s 50) 100"
    and a2: "allowedChange_in_range (setAdaptiveSlope ?s (2 * 50)) (- 10)"
    and le: "\<bar>sint (- 10 :: 32 word)\<bar> \<le> \<bar>sint (100 :: 32 word)\<bar>"
    and v1: "sint (allowedChange (setAdaptiveSlope ?s 50) (- 10)) = 10"
    and v2: "sint (allowedChange (setAdaptiveSlope ?s 50) 100) = 55"
    and v3: "sint (allowedChange (setAdaptiveSlope ?s (2 * 50)) (- 10)) = 15"
    by code_simp+
  from p n n2 a a2 le v1 v2 v3
    C6_adaptive_monotone [OF p, where s = ?s and ?d1.0 = "- 10" and ?d2.0 = 100 and d = "- 10"]
  show ?thesis
    by blast
qed

subsection \<open>C7: reset\<close>

text \<open>
  Claim C7: \<open>reset\<close> sets \<open>isFirstCall\<close> (the instance is uninitialised again), sets
  \<open>lastValue\<close> and \<open>emaValue\<close> to 0 and leaves the four configuration fields as they
  were; the next \<^verbatim>\<open>processValue(x)\<close> returns \<open>x\<close> and stores it as last output and EMA,
  whatever the instance went through before.
\<close>

theorem C7_reset:
  "isFirstCall (reset s) \<and> lastValue (reset s) = 0 \<and> emaValue (reset s) = 0 \<and>
   rateLimit (reset s) = rateLimit s \<and>
   hysteresisBand (reset s) = hysteresisBand s \<and>
   currentExponent (reset s) = currentExponent s \<and>
   adaptiveSlopeInternal (reset s) = adaptiveSlopeInternal s \<and>
   snd (processValue (reset s) x) = x \<and>
   lastValue (fst (processValue (reset s) x)) = x \<and>
   emaValue (fst (processValue (reset s) x)) = x"
  by (simp add: processValue_first [OF isFirstCall_reset]) (simp add: reset_def)

subsection \<open>C8: the configuration setters\<close>

text \<open>
  Claim C8, as stated: each setter changes its own configuration field only, the first
  three store their argument as it is, and \<open>setAdaptiveSlope p\<close> stores
  \<open>(p * 128 + 50) / 100\<close>. The last part fails where \<^verbatim>\<open>slope * 128 + 50\<close> wraps around:
  on an \<^verbatim>\<open>int\<close> of 32 bits \<^verbatim>\<open>setAdaptiveSlope(20000000)\<close> stores \<open>-17349672\<close>, where the
  quotient is 25600000.
\<close>

theorem C8_setters_counterexample:
  "sint (adaptiveSlopeInternal (setAdaptiveSlope
      (SlewRateLimiter SRL_SMOOTHING_4 5 2 0 :: 32 SlewRateLimiter) 20000000)) = - 17349672 \<and>
   truncated_quotient (20000000 * 128 + 50) 100 = 25600000 \<and>
   sint (adaptiveSlopeInternal (setAdaptiveSlope
      (SlewRateLimiter SRL_SMOOTHING_4 5 2 0 :: 32 SlewRateLimiter) 20000000))
     \<noteq> truncated_quotient (20000000 * 128 + 50) 100"
  by code_simp

text \<open>
  Claim C8, amended, for an \<^verbatim>\<open>int\<close> of at least 16 bits (the least that C++ allows): each
  setter changes its own configuration field only and never \<open>lastValue\<close>, \<open>emaValue\<close> or
  \<open>isFirstCall\<close>; \<open>setRateLimit\<close>, \<open>setHysteresisBand\<close> and \<open>setSmoothingExponent\<close> store
  their argument as it is; \<open>setAdaptiveSlope p\<close> stores the result of the machine
  expression \<^verbatim>\<open>(p * 128 + 50) / 100\<close>, which is the quotient \<open>(p * 128 + 50) / 100\<close>
  truncated towards zero whenever \<open>p * 128 + 50\<close> is in the range of \<^verbatim>\<open>int\<close>, and is 0 for
  \<open>p = 0\<close>, the fixed-rate mode.
\<close>

theorem C8_setters:
  fixes s :: "'a::len SlewRateLimiter"
  assumes "16 \<le> LENGTH('a)"
  shows "setRateLimit s limit = s\<lparr>rateLimit := limit\<rparr> \<and>
   setHysteresisBand s band = s\<lparr>hysteresisBand := band\<rparr> \<and>
   setSmoothingExponent s exponent = s\<lparr>currentExponent := exponent\<rparr> \<and>
   setAdaptiveSlope s p = s\<lparr>adaptiveSlopeInternal := c_div (p * 128 + 50) 100\<rparr> \<and>
   (in_range TYPE('a) (sint p * 128 + 50) \<longrightarrow>
      sint (adaptiveSlopeInternal (setAdaptiveSlope s p))
        = truncated_quotient (sint p * 128 + 50) 100) \<and>
   adaptiveSlopeInternal (setAdaptiveSlope s 0) = 0 \<and>
   allowedChange (setAdaptiveSlope s 0) delta = rateLimit s \<and>
   (lastValue (setRateLimit s limit) = lastValue s \<and>
    emaValue (setRateLimit s limit) = emaValue s \<and>
    isFirstCall (setRateLimit s limit) = isFirstCall s) \<and>
   (lastValue (setHysteresisBand s band) = lastValue s \<and>
    emaValue (setHysteresisBand s band) = emaValue s \<and>
    isFirstCall (setHysteresisBand s band) = isFirstCall s) \<and>
   (lastValue (setSmoothingExponent s exponent) = lastValue s \<and>
    emaValue (setSmoothingExponent s exponent) = emaValue s \<and>
    isFirstCall (setSmoothingExponent s exponent) = isFirstCall s) \<and>
   (lastValue (setAdaptiveSlope s p) = lastValue s \<and>
    emaValue (setAdaptiveSlope s p) = emaValue s \<and>
    isFirstCall (setAdaptiveSlope s p) = isFirstCall s)"
proof -
  have gain: "sint (adaptiveSlopeInternal (setAdaptiveSlope s p))
        = truncated_quotient (sint p * 128 + 50) 100" if "in_range TYPE('a) (sint p * 128 + 50)"
    using that in_range_100 [OF assms] by (rule sint_scaled_gain)
  have zero: "adaptiveSlopeInternal (setAdaptiveSlope s 0) = 0"
    using assms by (rule scaled_gain_0)
  have fixed: "allowedChange (setAdaptiveSlope s 0) delta = rateLimit s"
    by (simp add: allowedChange_def zero rateLimit_setAdaptiveSlope)
  have frame: "lastValue (setAdaptiveSlope s p) = lastValue s"
    "emaValue (setAdaptiveSlope s p) = emaValue s"
    "isFirstCall (setAdaptiveSlope s p) = isFirstCall s"
    "setAdaptiveSlope s p = s\<lparr>adaptiveSlopeInternal := c_div (p * 128 + 50) 100\<rparr>"
    by (simp_all add: setAdaptiveSlope_def)
  from gain zero fixed frame show ?thesis
    by (simp add: setRateLimit_def setHysteresisBand_def setSmoothingExponent_def)
qed

text \<open>Claim C8 (amended) on 32 bits: the percentage 50 gives the scaled gain 64, the
  percentage 0 the scaled gain 0.\<close>

theorem C8_setters_witness:
  "16 \<le> LENGTH(32) \<and> in_range TYPE(32) (sint (50 :: 32 word) * 128 + 50) \<and>
   sint (adaptiveSlopeInternal (setAdaptiveSlope
      (SlewRateLimiter SRL_SMOOTHING_4 5 2 0 :: 32 SlewRateLimiter) 50))
     = truncated_quotient (sint (50 :: 32 word) * 128 + 50) 100 \<and>
   truncated_quotient (sint (50 :: 32 word) * 128 + 50) 100 = 64 \<and>
   adaptiveSlopeInternal (setAdaptiveSlope
      (SlewRateLimiter SRL_SMOOTHING_4 5 2 0 :: 32 SlewRateLimiter) 0) = 0"
proof -
  have w: "16 \<le> LENGTH(32)"
    by simp
  have f: "in_range TYPE(32) (sint (50 :: 32 word) * 128 + 50)"
    by code_simp
  have q: "truncated_quotient (sint (50 :: 32 word) * 128 + 50) 100 = 64"
    by code_simp
  from w f q C8_setters [OF w, of "SlewRateLimiter SRL_SMOOTHING_4 5 2 0" _ _ _ 50]
  show ?thesis
    by blast
qed

subsection \<open>C9: the output does not depend on the EMA\<close>

text \<open>
  Claim C9: two initialised instances that agree on \<open>lastValue\<close>, \<open>rateLimit\<close>,
  \<open>hysteresisBand\<close> and the scaled gain, whatever their \<open>emaValue\<close> and
  \<open>currentExponent\<close>, return the same value for every input and have the same
  \<open>lastValue\<close> afterwards.
\<close>

theorem C9_output_independent_of_ema:
  assumes "\<not> isFirstCall s" and "\<not> isFirstCall t"
    and "lastValue s = lastValue t" and "rateLimit s = rateLimit t"
    and "hysteresisBand s = hysteresisBand t"
    and "adaptiveSlopeInternal s = adaptiveSlopeInternal t"
  shows "snd (processValue s x) = snd (processValue t x) \<and>
         lastValue (fst (processValue s x)) = lastValue (fst (processValue t x))"
proof -
  have allowed: "allowedChange s d = allowedChange t d" for d
    using assms(4,6) by (simp add: allowedChange_def)
  have stepped: "rateLimiting s x = rateLimiting t x"
    using assms(3) by (simp add: rateLimiting_def allowed Let_def)
  have hyst: "applyHysteresis s x v = applyHysteresis t x v" for v
    using assms(5) by (simp add: applyHysteresis_def)
  have "snd (processValue s x) = snd (processValue t x)"
    using assms(1,2) by (simp add: processValue_next stepped hyst)
  then show ?thesis
    by (simp add: processValue_returns_lastValue)
qed

text \<open>Claim C9 at two instances with last output 0, rate limit 10, band 3 and scaled
  gain 64, one with EMA 0 and exponent 4, the other with EMA \<open>-999\<close> and exponent 9:
  both return 260 for the input 500.\<close>

theorem C9_output_independent_of_ema_witness:
  "\<not> isFirstCall (fst (processValue (SlewRateLimiter SRL_SMOOTHING_16 10 3 50 :: 32 SlewRateLimiter) 0)) \<and>
   \<not> isFirstCall (fst (processValue (SlewRateLimiter SRL_SMOOTHING_16 10 3 50 :: 32 SlewRateLimiter) 0)
       \<lparr>emaValue := - 999, currentExponent := SRL_SMOOTHING_512\<rparr>) \<and>
   emaValue (fst (processValue (SlewRateLimiter SRL_SMOOTHING_16 10 3 50 :: 32 SlewRateLimiter) 0)) = 0 \<and>
   snd (processValue (fst (processValue
       (SlewRateLimiter SRL_SMOOTHING_16 10 3 50 :: 32 SlewRateLimiter) 0)) 500) = 260 \<and>
   snd (processValue (fst (processValue (SlewRateLimiter SRL_SMOOTHING_16 10 3 50 :: 32 SlewRateLimiter) 0)
       \<lparr>emaValue := - 999, currentExponent := SRL_SMOOTHING_512\<rparr>) 500) = 260"
proof -
  let ?s = "fst (processValue (SlewRateLimiter SRL_SMOOTHING_16 10 3 50 :: 32 SlewRateLimiter) 0)"
  let ?t = "?s\<lparr>emaValue := - 999, currentExponent := SRL_SMOOTHING_512\<rparr>"
  have s: "\<not> isFirstCall ?s"
    by (rule processValue_initialized)
  then have t: "\<not> isFirstCall ?t"
    by simp
  have e: "emaValue ?s = 0" and v: "snd (processValue ?s 500) = 260"
    by code_simp+
  have "snd (processValue ?s 500) = snd (processValue ?t 500)"
    using C9_output_independent_of_ema [OF s t, of 500] by simp
  with v have "snd (processValue ?t 500) = 260"
    by simp
  with s t e v show ?thesis
    by blast
qed

subsection \<open>C10: a step is at most rate limit plus band\<close>

text \<open>
  Claim C10, as stated: with scaled gain 0, \<open>rateLimit \<ge> 0\<close> and \<open>hysteresisBand \<ge> 0\<close>,
  every call after the first returns a value within \<open>rateLimit + hysteresisBand\<close> of
  the previous \<open>lastValue\<close>, for every input. It fails where
  \<^verbatim>\<open>delta = currentValue - lastValue\<close> wraps around: on an \<^verbatim>\<open>int\<close> of 32 bits, with
  \<open>rateLimit = 5\<close>, \<open>hysteresisBand = 2\<close>, last output \<^verbatim>\<open>INT_MIN\<close> and input \<^verbatim>\<open>INT_MAX\<close>,
  the code computes \<open>delta = -1\<close> and returns the input, a step of \<open>2^32 - 1\<close>.
\<close>

theorem C10_step_bound_counterexample:
  "adaptiveSlopeInternal (fst (processValue
      (SlewRateLimiter SRL_SMOOTHING_4 5 2 0 :: 32 SlewRateLimiter) (- 2147483648))) = 0 \<and>
   sint (rateLimit (fst (processValue
      (SlewRateLimiter SRL_SMOOTHING_4 5 2 0 :: 32 SlewRateLimiter) (- 2147483648)))) = 5 \<and>
   sint (hysteresisBand (fst (processValue
      (SlewRateLimiter SRL_SMOOTHING_4 5 2 0 :: 32 SlewRateLimiter) (- 2147483648)))) = 2 \<and>
   \<not> isFirstCall (fst (processValue
      (SlewRateLimiter SRL_SMOOTHING_4 5 2 0 :: 32 SlewRateLimiter) (- 2147483648))) \<and>
   sint (lastValue (fst (processValue
      (SlewRateLimiter SRL_SMOOTHING_4 5 2 0 :: 32 SlewRateLimiter) (- 2147483648))))
     = - 2147483648 \<and>
   sint (snd (processValue (fst (processValue
      (SlewRateLimiter SRL_SMOOTHING_4 5 2 0 :: 32 SlewRateLimiter) (- 2147483648)))
      2147483647)) = 2147483647 \<and>
   \<not> \<bar>sint (snd (processValue (fst (processValue
          (SlewRateLimiter SRL_SMOOTHING_4 5 2 0 :: 32 SlewRateLimiter) (- 2147483648)))
          2147483647))
        - sint (lastValue (fst (processValue
          (SlewRateLimiter SRL_SMOOTHING_4 5 2 0 :: 32 SlewRateLimiter) (- 2147483648))))\<bar>
      \<le> sint (rateLimit (fst (processValue
          (SlewRateLimiter SRL_SMOOTHING_4 5 2 0 :: 32 SlewRateLimiter) (- 2147483648))))
        + sint (hysteresisBand (fst (processValue
          (SlewRateLimiter SRL_SMOOTHING_4 5 2 0 :: 32 SlewRateLimiter) (- 2147483648))))"
  by code_simp

text \<open>
  Claim C10, amended: with scaled gain 0, \<open>rateLimit \<ge> 0\<close> and \<open>hysteresisBand \<ge> 0\<close>,
  every call after the first whose input is at most \<^verbatim>\<open>INT_MAX\<close> away from the previous
  \<open>lastValue\<close> returns a value within \<open>rateLimit + hysteresisBand\<close> of the previous
  \<open>lastValue\<close>. The differences and the sum are those of the integers.
\<close>

theorem C10_step_bound:
  fixes x :: "'a::len word"
  assumes "adaptiveSlopeInternal s = 0" and "0 \<le> sint (rateLimit s)"
    and "0 \<le> sint (hysteresisBand s)" and "\<not> isFirstCall s"
    and "\<bar>sint x - sint (lastValue s)\<bar> < 2 ^ (LENGTH('a) - 1)"
  shows "\<bar>sint (snd (processValue s x)) - sint (lastValue s)\<bar>
           \<le> sint (rateLimit s) + sint (hysteresisBand s)"
proof -
  let ?v = "rateLimiting s x"
  have v: "sint ?v =
    (if sint (rateLimit s) < sint x - sint (lastValue s) then sint (lastValue s) + sint (rateLimit s)
     else if sint x - sint (lastValue s) < - sint (rateLimit s) then sint (lastValue s) - sint (rateLimit s)
     else sint x)"
    using assms(1,2,5) by (rule sint_rateLimiting_fixed)
  with assms(2,5) have "\<bar>sint x - sint ?v\<bar> < 2 ^ (LENGTH('a) - 1)"
    by (simp split: if_splits)
  then have "applyHysteresis s x ?v = (if \<bar>sint x - sint ?v\<bar> \<le> sint (hysteresisBand s) then x else ?v)"
    by (rule applyHysteresis_sint)
  with v assms(2,3) show ?thesis
    by (simp add: processValue_next [OF assms(4)] split: if_splits)
qed

text \<open>Claim C10 (amended) on 32 bits at \<open>rateLimit = 5\<close>, \<open>hysteresisBand = 2\<close>, last
  output 0 and input 7: the output moves by 7, the bound itself.\<close>

theorem C10_step_bound_witness:
  "adaptiveSlopeInternal (fst (processValue
      (SlewRateLimiter SRL_SMOOTHING_4 5 2 0 :: 32 SlewRateLimiter) 0)) = 0 \<and>
   0 \<le> sint (rateLimit (fst (processValue
      (SlewRateLimiter SRL_SMOOTHING_4 5 2 0 :: 32 SlewRateLimiter) 0))) \<and>
   0 \<le> sint (hysteresisBand (fst (processValue
      (SlewRateLimiter SRL_SMOOTHING_4 5 2 0 :: 32 SlewRateLimiter) 0))) \<and>
   \<not> isFirstCall (fst (processValue
      (SlewRateLimiter SRL_SMOOTHING_4 5 2 0 :: 32 SlewRateLimiter) 0)) \<and>
   \<bar>sint (7 :: 32 word) - sint (lastValue (fst (processValue
      (SlewRateLimiter SRL_SMOOTHING_4 5 2 0 :: 32 SlewRateLimiter) 0)))\<bar> < 2 ^ (LENGTH(32) - 1) \<and>
   \<bar>sint (snd (processValue (fst (processValue
        (SlewRateLimiter SRL_SMOOTHING_4 5 2 0 :: 32 SlewRateLimiter) 0)) 7))
      - sint (lastValue (fst (processValue
        (SlewRateLimiter SRL_SMOOTHING_4 5 2 0 :: 32 SlewRateLimiter) 0)))\<bar>
     \<le> sint (rateLimit (fst (processValue
        (SlewRateLimiter SRL_SMOOTHING_4 5 2 0 :: 32 SlewRateLimiter) 0)))
       + sint (hysteresisBand (fst (processValue
        (SlewRateLimiter SRL_SMOOTHING_4 5 2 0 :: 32 SlewRateLimiter) 0))) \<and>
   map sint (processValues (SlewRateLimiter SRL_SMOOTHING_4 5 2 0 :: 32 SlewRateLimiter) [0, 7])
     = [0, 7]"
proof -
  let ?s = "fst (processValue (SlewRateLimiter SRL_SMOOTHING_4 5 2 0 :: 32 SlewRateLimiter) 0)"
  have i: "\<not> isFirstCall ?s"
    by (rule processValue_initialized)
  have g: "adaptiveSlopeInternal ?s = 0" and r: "0 \<le> sint (rateLimit ?s)"
    and h: "0 \<le> sint (hysteresisBand ?s)"
    and d: "\<bar>sint (7 :: 32 word) - sint (lastValue ?s)\<bar> < 2 ^ (LENGTH(32) - 1)"
    and run: "map sint (processValues (SlewRateLimiter SRL_SMOOTHING_4 5 2 0 :: 32 SlewRateLimiter)
                [0, 7]) = [0, 7]"
    by code_simp+
  from g r h i d run C10_step_bound [OF g r h i d] show ?thesis
    by blast
qed

end
